theory Spec2Isabelle
  imports Complex_Main
begin

section \<open>Scalars and 3-vectors\<close>

text \<open>
  The program computes with Python floats and numpy arrays of three float64 components.
  Scalars are modelled as \<^typ>\<open>real\<close>: every operation is the exact one, so rounding,
  overflow to infinity and NaN are outside this model. A numpy array of shape (3,) is a
  triple, an array of shape (k, 3) a list of triples.  The numpy operators are written
  out component by component, in the operand order the source uses.
\<close>

type_synonym vec3 = "real \<times> real \<times> real"

text \<open>\<^verbatim>\<open>u + w\<close> on two arrays.\<close>

fun vadd :: "vec3 \<Rightarrow> vec3 \<Rightarrow> vec3" where
  "vadd (u0, u1, u2) (w0, w1, w2) = (u0 + w0, u1 + w1, u2 + w2)"

text \<open>\<^verbatim>\<open>s * u\<close>, scalar on the left.\<close>

fun smul :: "real \<Rightarrow> vec3 \<Rightarrow> vec3" where
  "smul s (u0, u1, u2) = (s * u0, s * u1, s * u2)"

text \<open>\<^verbatim>\<open>u * s\<close>, scalar on the right.\<close>

fun vmuls :: "vec3 \<Rightarrow> real \<Rightarrow> vec3" where
  "vmuls (u0, u1, u2) s = (u0 * s, u1 * s, u2 * s)"

text \<open>\<^verbatim>\<open>u / s\<close>; the source only divides an array by the literal 2.\<close>

fun vdivs :: "vec3 \<Rightarrow> real \<Rightarrow> vec3" where
  "vdivs (u0, u1, u2) s = (u0 / s, u1 / s, u2 / s)"

text \<open>\<^verbatim>\<open>np.cross(u, w)\<close> on two arrays of three components.\<close>

fun cross :: "vec3 \<Rightarrow> vec3 \<Rightarrow> vec3" where
  "cross (u0, u1, u2) (w0, w1, w2) =
     (u1 * w2 - u2 * w1, u2 * w0 - u0 * w2, u0 * w1 - u1 * w0)"

section \<open>Field functions and the acceleration\<close>

text \<open>
  \<^verbatim>\<open>E\<close>, \<open>B\<close> and \<open>g\<close> are module-level functions that the operator edits before a
  run; \<^verbatim>\<open>a\<close> reads them as globals.  The model passes them explicitly as a record, and
  \<open>src_fields\<close> is the configuration the source file ships with.
\<close>

record Fields =
  field_E :: "vec3 \<Rightarrow> vec3"
  field_B :: "vec3 \<Rightarrow> vec3"
  field_g :: "vec3 \<Rightarrow> vec3"

definition E_src :: "vec3 \<Rightarrow> vec3" where
  "E_src r = (0, 0, 0)"

definition B_src :: "vec3 \<Rightarrow> vec3" where
  "B_src r = (0, 1 / 10 ^ 10, 0)"

definition g_src :: "vec3 \<Rightarrow> vec3" where
  "g_src r = (0, 0, 0)"

definition src_fields :: Fields where
  "src_fields = \<lparr>field_E = E_src, field_B = B_src, field_g = g_src\<rparr>"

text \<open>\<^verbatim>\<open>def a(qByM, r, v): return qByM*(E(r) + np.cross(v, B(r))) + g(r)\<close>\<close>

definition a_accel :: "Fields \<Rightarrow> real \<Rightarrow> vec3 \<Rightarrow> vec3 \<Rightarrow> vec3" where
  "a_accel F qByM r v =
     vadd (smul qByM (vadd (field_E F r) (cross v (field_B F r)))) (field_g F r)"

section \<open>Particles and the two integrators\<close>

datatype py_error = IndexError | ZeroDivisionError

text \<open>
  \<^verbatim>\<open>Particle.__init__\<close> stores its four arguments and checks nothing; a particle is the
  record of these four attributes.
\<close>

record Particle =
  part_q :: real
  part_m :: real
  part_rs :: "vec3 list"
  part_vs :: "vec3 list"

definition Particle_init :: "real \<Rightarrow> real \<Rightarrow> vec3 list \<Rightarrow> vec3 list \<Rightarrow> Particle" where
  "Particle_init q m rs vs = \<lparr>part_q = q, part_m = m, part_rs = rs, part_vs = vs\<rparr>"

text \<open>\<^verbatim>\<open>xs[-1]\<close>: the last row, IndexError on an array without rows.\<close>

definition py_last :: "'a list \<Rightarrow> py_error + 'a" where
  "py_last xs = (if xs = [] then Inl IndexError else Inr (last xs))"

text \<open>\<^verbatim>\<open>x / y\<close> on Python numbers: ZeroDivisionError when the divisor is zero.\<close>

definition py_div :: "real \<Rightarrow> real \<Rightarrow> py_error + real" where
  "py_div x y = (if y = 0 then Inl ZeroDivisionError else Inr (x / y))"

text \<open>
  \<^verbatim>\<open>updateEuler\<close> mutates \<open>self\<close>; the model returns the particle after the call, or the
  exception.  Every statement that can raise comes before the first assignment to an
  attribute, so an exception leaves the particle as it was.  The first assignment to
  \<open>rf\<close> is overwritten by the second, as in the source.
\<close>

definition updateEuler :: "Fields \<Rightarrow> Particle \<Rightarrow> real \<Rightarrow> py_error + Particle" where
  "updateEuler F self dt =
     (case py_last (part_rs self) of Inl e \<Rightarrow> Inl e | Inr ri \<Rightarrow>
     (case py_last (part_vs self) of Inl e \<Rightarrow> Inl e | Inr vi \<Rightarrow>
     (case py_div (part_q self) (part_m self) of Inl e \<Rightarrow> Inl e | Inr qByM \<Rightarrow>
        let vf = vadd vi (vmuls (a_accel F qByM ri vi) dt);
            self = self\<lparr>part_vs := part_vs self @ [vf]\<rparr>;
            rf = vadd ri (vmuls vi dt);
            rf = vadd ri (vmuls (vdivs (vadd vi vf) 2) dt)
        in Inr (self\<lparr>part_rs := part_rs self @ [rf]\<rparr>))))"

definition updateRK4 :: "Fields \<Rightarrow> Particle \<Rightarrow> real \<Rightarrow> py_error + Particle" where
  "updateRK4 F self dt =
     (case py_last (part_rs self) of Inl e \<Rightarrow> Inl e | Inr ri \<Rightarrow>
     (case py_last (part_vs self) of Inl e \<Rightarrow> Inl e | Inr vi \<Rightarrow>
     (case py_div (part_q self) (part_m self) of Inl e \<Rightarrow> Inl e | Inr qByM \<Rightarrow>
        let k1v = a_accel F qByM ri vi;
            k1r = vi;
            k2v = a_accel F qByM (vadd ri (vmuls k1r (dt / 2))) k1r;
            k2r = vadd vi (vmuls k1v (dt / 2));
            k3v = a_accel F qByM (vadd ri (vmuls k2r (dt / 2))) k2r;
            k3r = vadd vi (vmuls k2v (dt / 2));
            k4v = a_accel F qByM (vadd ri (vmuls k3r dt)) k3r;
            k4r = vadd vi (vmuls k3v dt);
            vf = vadd vi (smul (dt / 6)
                   (vadd (vadd (vadd k1v (smul 2 k2v)) (smul 2 k3v)) k4v));
            self = self\<lparr>part_vs := part_vs self @ [vf]\<rparr>;
            rf = vadd ri (smul (dt / 6)
                   (vadd (vadd (vadd k1r (smul 2 k2r)) (smul 2 k3r)) k4r))
        in Inr (self\<lparr>part_rs := part_rs self @ [rf]\<rparr>))))"

section \<open>The driver\<close>

text \<open>
  \<^verbatim>\<open>main\<close> returns nothing; what it leaves behind is the state of the particle objects
  in the list.  The model returns that state, together with the exception when one
  ends the run.  The list holds one entry per particle object (the source builds each
  with its own constructor call).  The progress line printed every 1000 iterations and
  the call of \<^verbatim>\<open>plotResults\<close>, which only reads the particles, are left out.
\<close>

datatype 's outcome = Returned 's | Raised py_error 's

fun final_state :: "'s outcome \<Rightarrow> 's" where
  "final_state (Returned s) = s"
| "final_state (Raised e s) = s"

text \<open>The body of the inner loop: any string other than \<^verbatim>\<open>'RK4'\<close> selects Euler.\<close>

definition update_particle :: "Fields \<Rightarrow> string \<Rightarrow> Particle \<Rightarrow> real \<Rightarrow> py_error + Particle" where
  "update_particle F integrator particle dt =
     (if integrator = ''RK4'' then updateRK4 F particle dt
      else updateEuler F particle dt)"

text \<open>
  \<^verbatim>\<open>for particle in particles\<close>: particles are updated front to back; an exception stops
  the loop with the earlier particles already updated.
\<close>

fun for_particles :: "Fields \<Rightarrow> string \<Rightarrow> real \<Rightarrow> Particle list \<Rightarrow> Particle list outcome" where
  "for_particles F integrator dt [] = Returned []"
| "for_particles F integrator dt (particle # rest) =
     (case update_particle F integrator particle dt of
        Inl e \<Rightarrow> Raised e (particle # rest)
      | Inr particle' \<Rightarrow>
          (case for_particles F integrator dt rest of
             Returned rest' \<Rightarrow> Returned (particle' # rest')
           | Raised e rest' \<Rightarrow> Raised e (particle' # rest')))"

text \<open>\<^verbatim>\<open>for i in range(n)\<close>, counted by the iterations that remain.\<close>

fun for_range :: "Fields \<Rightarrow> string \<Rightarrow> real \<Rightarrow> nat \<Rightarrow> Particle list \<Rightarrow> Particle list outcome" where
  "for_range F integrator dt 0 particles = Returned particles"
| "for_range F integrator dt (Suc k) particles =
     (case for_particles F integrator dt particles of
        Returned particles' \<Rightarrow> for_range F integrator dt k particles'
      | Raised e particles' \<Rightarrow> Raised e particles')"

text \<open>\<^verbatim>\<open>int(x)\<close> on a float: the fractional part is dropped, rounding towards zero.\<close>

definition py_int :: "real \<Rightarrow> int" where
  "py_int x = (if 0 \<le> x then \<lfloor>x\<rfloor> else \<lceil>x\<rceil>)"

text \<open>
  \<^verbatim>\<open>n = int(t/dt)\<close>, then the two nested loops; \<^verbatim>\<open>range(n)\<close> is empty for \<open>n \<le> 0\<close>,
  which is what \<^term>\<open>nat\<close> gives.
\<close>

definition main :: "Fields \<Rightarrow> Particle list \<Rightarrow> real \<Rightarrow> real \<Rightarrow> string \<Rightarrow> Particle list outcome" where
  "main F particles t dt integrator =
     (case py_div t dt of
        Inl e \<Rightarrow> Raised e particles
      | Inr x \<Rightarrow> let n = py_int x in for_range F integrator dt (nat n) particles)"

section \<open>Notions used in the statements\<close>


text \<open>\<open>n\<close> integration steps on one particle, one after the other.\<close>

fun steps :: "Fields \<Rightarrow> string \<Rightarrow> real \<Rightarrow> nat \<Rightarrow> Particle \<Rightarrow> py_error + Particle" where
  "steps F integrator dt 0 p = Inr p"
| "steps F integrator dt (Suc k) p =
     (case update_particle F integrator p dt of
        Inl e \<Rightarrow> Inl e
      | Inr p' \<Rightarrow> steps F integrator dt k p')"

text \<open>Both histories of a particle have the same number of rows.\<close>

definition same_length :: "Particle \<Rightarrow> bool" where
  "same_length p = (length (part_rs p) = length (part_vs p))"

text \<open>A configuration in which all three fields vanish everywhere.\<close>

definition zero_fields :: Fields where
  "zero_fields =
     \<lparr>field_E = (\<lambda>r. (0, 0, 0)), field_B = (\<lambda>r. (0, 0, 0)), field_g = (\<lambda>r. (0, 0, 0))\<rparr>"

text \<open>
  Sample particles for the concrete instances below, built the way the source's
  \<^verbatim>\<open>__main__\<close> block builds its particles: one row of position, one row of velocity.
  \<open>wz\<close> has mass zero; \<open>wh\<close> agrees with \<open>wp\<close> in charge, mass and last rows but has
  an earlier row in each history.
\<close>

definition wp :: Particle where
  "wp = Particle_init (- 2) 1 [(0, 0, 0)] [(10, 1, 0)]"

definition wq :: Particle where
  "wq = Particle_init 1 2 [(- 1, 0, 0)] [(4, 0, 2)]"

definition wz :: Particle where
  "wz = Particle_init (- 2) 0 [(0, 0, 0)] [(10, 1, 0)]"

definition wh :: Particle where
  "wh = Particle_init (- 2) 1 [(5, 5, 5), (0, 0, 0)] [(7, 7, 7), (10, 1, 0)]"

section \<open>Auxiliary facts\<close>

subsection \<open>One step\<close>

lemma updateEuler_Inr:
  "updateEuler F p dt = Inr p' \<Longrightarrow>
     p' = p\<lparr>part_vs := part_vs p @ [last (part_vs p')],
            part_rs := part_rs p @ [last (part_rs p')]\<rparr>"
  by (auto simp: updateEuler_def Let_def split: sum.splits)

lemma updateRK4_Inr:
  "updateRK4 F p dt = Inr p' \<Longrightarrow>
     p' = p\<lparr>part_vs := part_vs p @ [last (part_vs p')],
            part_rs := part_rs p @ [last (part_rs p')]\<rparr>"
  by (auto simp: updateRK4_def Let_def split: sum.splits)

lemma update_particle_Inr:
  "update_particle F integrator p dt = Inr p' \<Longrightarrow>
     p' = p\<lparr>part_vs := part_vs p @ [last (part_vs p')],
            part_rs := part_rs p @ [last (part_rs p')]\<rparr>"
  unfolding update_particle_def
  by (cases "integrator = ''RK4''") (simp_all add: updateEuler_Inr updateRK4_Inr)

lemma update_particle_lengths:
  assumes "update_particle F integrator p dt = Inr p'"
  shows "length (part_rs p') = Suc (length (part_rs p))"
    and "length (part_vs p') = Suc (length (part_vs p))"
proof -
  note e = update_particle_Inr[OF assms]
  show "length (part_rs p') = Suc (length (part_rs p))" by (subst e) simp
  show "length (part_vs p') = Suc (length (part_vs p))" by (subst e) simp
qed

lemma update_particle_same_length:
  "update_particle F integrator p dt = Inr p' \<Longrightarrow> same_length p \<Longrightarrow> same_length p'"
  by (simp add: same_length_def update_particle_lengths)






subsection \<open>The two loops\<close>

lemma for_particles_Returned:
  "for_particles F integrator dt ps = Returned ps' \<longleftrightarrow>
     list_all2 (\<lambda>p p'. update_particle F integrator p dt = Inr p') ps ps'"
proof (induction ps arbitrary: ps')
  case Nil
  show ?case by auto
next
  case (Cons p ps)
  show ?case
    by (cases ps') (auto simp: Cons[symmetric] split: sum.splits outcome.splits)
qed

lemma for_range_Returned:
  "for_range F integrator dt n ps = Returned ps' \<longleftrightarrow>
     list_all2 (\<lambda>p p'. steps F integrator dt n p = Inr p') ps ps'"
proof (induction n arbitrary: ps ps')
  case 0
  show ?case by (auto simp: list.rel_eq)
next
  case (Suc n)
  show ?case
  proof (cases "for_particles F integrator dt ps")
    case (Returned qs)
    then have qs: "list_all2 (\<lambda>p p'. update_particle F integrator p dt = Inr p') ps qs"
      by (simp add: for_particles_Returned)
    then have "list_all2 (\<lambda>p p'. steps F integrator dt (Suc n) p = Inr p') ps ps' \<longleftrightarrow>
               list_all2 (\<lambda>p p'. steps F integrator dt n p = Inr p') qs ps'"
      by (auto simp: list_all2_conv_all_nth)
    with Returned Suc[of qs ps'] show ?thesis by simp
  next
    case (Raised e qs)
    have "\<not> list_all2 (\<lambda>p p'. steps F integrator dt (Suc n) p = Inr p') ps ps'"
    proof
      assume a: "list_all2 (\<lambda>p p'. steps F integrator dt (Suc n) p = Inr p') ps ps'"
      have "list_all2 (\<lambda>p p'. update_particle F integrator p dt = Inr p') ps
              (map (\<lambda>p. projr (update_particle F integrator p dt)) ps)"
        unfolding list_all2_conv_all_nth
      proof (intro conjI allI impI)
        fix i assume "i < length ps"
        with a have "steps F integrator dt (Suc n) (ps ! i) = Inr (ps' ! i)"
          by (simp add: list_all2_conv_all_nth)
        then show "update_particle F integrator (ps ! i) dt =
                   Inr (map (\<lambda>p. projr (update_particle F integrator p dt)) ps ! i)"
          using \<open>i < length ps\<close> by (auto split: sum.splits)
      qed simp
      with Raised show False by (simp add: for_particles_Returned[symmetric])
    qed
    with Raised show ?thesis by simp
  qed
qed




lemma steps_lengths:
  "steps F integrator dt n p = Inr p' \<Longrightarrow>
     length (part_rs p') = length (part_rs p) + n \<and>
     length (part_vs p') = length (part_vs p) + n"
proof (induction n arbitrary: p)
  case 0
  then show ?case by simp
next
  case (Suc n)
  then obtain q where q: "update_particle F integrator p dt = Inr q"
    "steps F integrator dt n q = Inr p'"
    by (auto split: sum.splits)
  from Suc.IH[OF q(2)] update_particle_lengths[OF q(1)] show ?case by simp
qed

lemma for_particles_same_length:
  "list_all same_length ps \<Longrightarrow>
     list_all same_length (final_state (for_particles F integrator dt ps))"
  by (induction ps) (auto split: sum.splits outcome.splits dest: update_particle_same_length)

lemma for_range_same_length:
  "list_all same_length ps \<Longrightarrow>
     list_all same_length (final_state (for_range F integrator dt n ps))"
proof (induction n arbitrary: ps)
  case 0
  then show ?case by simp
next
  case (Suc n)
  show ?case
  proof (cases "for_particles F integrator dt ps")
    case (Returned qs)
    with for_particles_same_length[OF Suc.prems, of F integrator dt]
    have "list_all same_length qs" by simp
    from Suc.IH[OF this] Returned show ?thesis by simp
  next
    case (Raised e qs)
    with for_particles_same_length[OF Suc.prems, of F integrator dt] show ?thesis by simp
  qed
qed

subsection \<open>A particle of mass zero in the list\<close>




subsection \<open>Truncation and floor\<close>



section \<open>The acceleration\<close>

text \<open>
  Claim C1.  For every charge-to-mass ratio, position and velocity, \<open>a\<close> returns
  \<open>qOverM * (E(r) + v \<times> B(r)) + g(r)\<close>: written out in components in the first conjunct,
  in the vector operations in the second.  The cross product is the right-handed one:
  \<open>x \<times> y = z\<close>, \<open>y \<times> z = x\<close>, \<open>z \<times> x = y\<close>.  The result is a function of the field
  functions and the three arguments alone.
\<close>

theorem acceleration_formula:
  "a_accel F qOverM r (vx, vy, vz) =
     (case field_E F r of (ex, ey, ez) \<Rightarrow>
      case field_B F r of (bx, by, bz) \<Rightarrow>
      case field_g F r of (gx, gy, gz) \<Rightarrow>
        (qOverM * (ex + (vy * bz - vz * by)) + gx,
         qOverM * (ey + (vz * bx - vx * bz)) + gy,
         qOverM * (ez + (vx * by - vy * bx)) + gz)) \<and>
   a_accel F qOverM r v =
     vadd (smul qOverM (vadd (field_E F r) (cross v (field_B F r)))) (field_g F r) \<and>
   cross (1, 0, 0) (0, 1, 0) = (0, 0, 1) \<and>
   cross (0, 1, 0) (0, 0, 1) = (1, 0, 0) \<and>
   cross (0, 0, 1) (1, 0, 0) = (0, 1, 0)"
  by (simp add: a_accel_def split: prod.splits)

section \<open>The Euler step\<close>

text \<open>
  Claim C2.  For a particle of non-zero mass whose histories end in \<open>r_i\<close> and \<open>v_i\<close>, one
  call of \<^verbatim>\<open>updateEuler\<close> returns normally, appends
  \<open>v_next = v_i + a_i * dt\<close> with \<open>a_i = a(charge / mass, r_i, v_i)\<close> to the velocity
  history and the trapezoidal \<open>r_next = r_i + ((v_i + v_next) / 2) * dt\<close> to the position
  history, and changes nothing else.  The appended position is not the forward-Euler
  position \<open>r_i + v_i * dt\<close>: the two agree only when \<open>dt = 0\<close> or \<open>a_i\<close> vanishes.
\<close>

theorem updateEuler_step:
  assumes "part_m p \<noteq> 0" "part_rs p = rs_old @ [ri]" "part_vs p = vs_old @ [vi]"
  shows "let a_i = a_accel F (part_q p / part_m p) ri vi;
             v_next = vadd vi (vmuls a_i dt);
             r_next = vadd ri (vmuls (vdivs (vadd vi v_next) 2) dt)
         in updateEuler F p dt =
              Inr (p\<lparr>part_vs := part_vs p @ [v_next], part_rs := part_rs p @ [r_next]\<rparr>) \<and>
            (r_next = vadd ri (vmuls vi dt) \<longleftrightarrow> dt = 0 \<or> a_i = (0, 0, 0))"
proof -
  have naive: "vadd ri (vmuls (vdivs (vadd vi (vadd vi (vmuls ai dt))) 2) dt) =
               vadd ri (vmuls vi dt) \<longleftrightarrow> (dt = 0 \<or> ai = (0, 0, 0))" for ai
    by (cases ri; cases vi; cases ai) (auto simp: field_simps)
  show ?thesis
    using assms naive
    by (simp add: updateEuler_def py_last_def py_div_def Let_def)
qed

text \<open>
  The instance for the sample particle \<open>wp\<close> in the fields of the source file, \<open>dt = 1\<close>:
  the acceleration is \<open>(0, 0, - 2 / 10 ^ 9)\<close>, and the appended position differs from
  \<open>r_i + v_i * dt = (10, 1, 0)\<close>.
\<close>

theorem updateEuler_step_witness:
  "part_m wp \<noteq> 0 \<and> part_rs wp = [] @ [(0, 0, 0)] \<and> part_vs wp = [] @ [(10, 1, 0)] \<and>
   a_accel src_fields (part_q wp / part_m wp) (0, 0, 0) (10, 1, 0) = (0, 0, - 2 / 10 ^ 9) \<and>
   updateEuler src_fields wp 1 =
     Inr (wp\<lparr>part_vs := [(10, 1, 0), (10, 1, - 2 / 10 ^ 9)],
             part_rs := [(0, 0, 0), (10, 1, - 1 / 10 ^ 9)]\<rparr>) \<and>
   (10, 1, - 1 / 10 ^ 9) \<noteq> vadd (0, 0, 0) (vmuls (10, 1, 0) 1)"
  using updateEuler_step[where p = wp and rs_old = "[]" and ri = "(0, 0, 0)" and vs_old = "[]"
      and vi = "(10, 1, 0)" and F = src_fields and dt = 1]
  by (simp add: wp_def Particle_init_def Let_def a_accel_def src_fields_def
      E_src_def B_src_def g_src_def)

section \<open>The Runge-Kutta step\<close>

text \<open>
  Claim C3.  For a particle of non-zero mass whose histories end in \<open>r_i\<close> and \<open>v_i\<close>, one
  call of \<^verbatim>\<open>updateRK4\<close> returns normally and appends
  \<open>v_i + (dt / 6) * (k1v + 2 k2v + 2 k3v + k4v)\<close> and
  \<open>r_i + (dt / 6) * (k1r + 2 k2r + 2 k3r + k4r)\<close>, where the stages are those of the
  recurrence \<open>k1v = a(r_i, v_i)\<close>, \<open>k1r = v_i\<close>, \<open>k2v = a(r_i + k1r * dt / 2, k1r)\<close>,
  \<open>k2r = v_i + k1v * dt / 2\<close>, \<open>k3v = a(r_i + k2r * dt / 2, k2r)\<close>,
  \<open>k3r = v_i + k2v * dt / 2\<close>, \<open>k4v = a(r_i + k3r * dt, k3r)\<close>, \<open>k4r = v_i + k3v * dt\<close>.
  The velocity argument of each later acceleration call is the position slope of the
  stage before it.
\<close>

theorem updateRK4_step:
  assumes "part_m p \<noteq> 0" "part_rs p = rs_old @ [ri]" "part_vs p = vs_old @ [vi]"
  shows "let qOverM = part_q p / part_m p;
             k1v = a_accel F qOverM ri vi;
             k1r = vi;
             k2v = a_accel F qOverM (vadd ri (vdivs (vmuls k1r dt) 2)) k1r;
             k2r = vadd vi (vdivs (vmuls k1v dt) 2);
             k3v = a_accel F qOverM (vadd ri (vdivs (vmuls k2r dt) 2)) k2r;
             k3r = vadd vi (vdivs (vmuls k2v dt) 2);
             k4v = a_accel F qOverM (vadd ri (vmuls k3r dt)) k3r;
             k4r = vadd vi (vmuls k3v dt);
             v_next = vadd vi (smul (dt / 6)
                        (vadd (vadd (vadd k1v (smul 2 k2v)) (smul 2 k3v)) k4v));
             r_next = vadd ri (smul (dt / 6)
                        (vadd (vadd (vadd k1r (smul 2 k2r)) (smul 2 k3r)) k4r))
         in updateRK4 F p dt =
              Inr (p\<lparr>part_vs := part_vs p @ [v_next], part_rs := part_rs p @ [r_next]\<rparr>)"
proof -
  have half: "vmuls k (dt / 2) = vdivs (vmuls k dt) 2" for k
    by (cases k) simp
  show ?thesis
    using assms
    by (simp add: updateRK4_def py_last_def py_div_def Let_def half)
qed

text \<open>
  The instance for \<open>wp\<close> in the fields of the source file, \<open>dt = 1\<close>.  The second and third
  acceleration stages are evaluated at the velocities \<open>k1r\<close> and \<open>k2r\<close>.
\<close>

theorem updateRK4_step_witness:
  "part_m wp \<noteq> 0 \<and> part_rs wp = [] @ [(0, 0, 0)] \<and> part_vs wp = [] @ [(10, 1, 0)] \<and>
   updateRK4 src_fields wp 1 =
     Inr (wp\<lparr>part_vs := [(10, 1, 0), (10 - 1 / 10 ^ 19, 1, - 2 / 10 ^ 9)],
             part_rs := [(0, 0, 0), (10 - 1 / (3 * 10 ^ 19), 1, - 1 / 10 ^ 9)]\<rparr>)"
  using updateRK4_step[where p = wp and rs_old = "[]" and ri = "(0, 0, 0)" and vs_old = "[]"
      and vi = "(10, 1, 0)" and F = src_fields and dt = 1]
  by (simp add: wp_def Particle_init_def Let_def a_accel_def src_fields_def
      E_src_def B_src_def g_src_def)

section \<open>History lengths\<close>

text \<open>
  Claim C4.  The two histories of a particle have the same length at all times, each
  integration step grows both by exactly one row, and \<open>n\<close> completed steps from
  one-row histories leave \<open>n + 1\<close> rows in each.  The first two conjuncts are the growth
  by one for a completed Euler and a completed Runge-Kutta step.  The third is the
  invariant: if the histories of every particle agree in length when \<^verbatim>\<open>main\<close> is
  called, they agree in the state \<^verbatim>\<open>main\<close> leaves behind, whether it returns or is
  ended by an exception.  The fourth is the count after \<open>n\<close> completed iterations of
  the outer loop.
\<close>

theorem history_lengths:
  "(updateEuler F p dt = Inr p' \<longrightarrow>
      length (part_rs p') = length (part_rs p) + 1 \<and>
      length (part_vs p') = length (part_vs p) + 1) \<and>
   (updateRK4 F p dt = Inr p' \<longrightarrow>
      length (part_rs p') = length (part_rs p) + 1 \<and>
      length (part_vs p') = length (part_vs p) + 1) \<and>
   (list_all same_length ps \<longrightarrow>
      list_all same_length (final_state (main F ps t dt integrator))) \<and>
   (list_all (\<lambda>p. length (part_rs p) = 1 \<and> length (part_vs p) = 1) ps \<and>
    for_range F integrator dt n ps = Returned ps' \<longrightarrow>
      list_all (\<lambda>p. length (part_rs p) = n + 1 \<and> length (part_vs p) = n + 1) ps')"
proof (intro conjI impI)
  assume "updateEuler F p dt = Inr p'"
  then have "update_particle F ''euler'' p dt = Inr p'"
    by (simp add: update_particle_def)
  from update_particle_lengths[OF this]
  show "length (part_rs p') = length (part_rs p) + 1"
    and "length (part_vs p') = length (part_vs p) + 1"
    by simp_all
next
  assume "updateRK4 F p dt = Inr p'"
  then have "update_particle F ''RK4'' p dt = Inr p'"
    by (simp add: update_particle_def)
  from update_particle_lengths[OF this]
  show "length (part_rs p') = length (part_rs p) + 1"
    and "length (part_vs p') = length (part_vs p) + 1"
    by simp_all
next
  assume "list_all same_length ps"
  then show "list_all same_length (final_state (main F ps t dt integrator))"
    by (simp add: main_def py_div_def for_range_same_length)
next
  assume a: "list_all (\<lambda>p. length (part_rs p) = 1 \<and> length (part_vs p) = 1) ps \<and>
    for_range F integrator dt n ps = Returned ps'"
  then have l2: "list_all2 (\<lambda>p p'. steps F integrator dt n p = Inr p') ps ps'"
    by (simp add: for_range_Returned)
  show "list_all (\<lambda>p. length (part_rs p) = n + 1 \<and> length (part_vs p) = n + 1) ps'"
    unfolding list_all_length
  proof (intro allI impI)
    fix i assume i: "i < length ps'"
    with l2 have s: "steps F integrator dt n (ps ! i) = Inr (ps' ! i)" and i': "i < length ps"
      by (simp_all add: list_all2_conv_all_nth)
    from a i' have "length (part_rs (ps ! i)) = 1 \<and> length (part_vs (ps ! i)) = 1"
      by (simp add: list_all_length)
    with steps_lengths[OF s]
    show "length (part_rs (ps' ! i)) = n + 1 \<and> length (part_vs (ps' ! i)) = n + 1"
      by simp
  qed
qed

text \<open>
  The instance: one Euler and one Runge-Kutta step on \<open>wp\<close>, a run of two steps that
  returns, a run that the zero-mass particle \<open>wz\<close> ends in its first step, and two
  iterations of the outer loop, all in vanishing fields with \<open>dt = 1\<close>.
\<close>

theorem history_lengths_witness:
  "updateEuler zero_fields wp 1 =
     Inr (wp\<lparr>part_vs := [(10, 1, 0), (10, 1, 0)], part_rs := [(0, 0, 0), (10, 1, 0)]\<rparr>) \<and>
   updateRK4 zero_fields wp 1 =
     Inr (wp\<lparr>part_vs := [(10, 1, 0), (10, 1, 0)], part_rs := [(0, 0, 0), (10, 1, 0)]\<rparr>) \<and>
   length (part_rs wp) = 1 \<and> length (part_vs wp) = 1 \<and>
   length [(0, 0, 0), (10, 1, 0) :: vec3] = length (part_rs wp) + 1 \<and>
   length [(10, 1, 0), (10, 1, 0) :: vec3] = length (part_vs wp) + 1 \<and>
   list_all same_length [wp, wz, wq] \<and>
   main zero_fields [wp, wz, wq] 2 1 ''RK4'' =
     Raised ZeroDivisionError
       [wp\<lparr>part_vs := [(10, 1, 0), (10, 1, 0)], part_rs := [(0, 0, 0), (10, 1, 0)]\<rparr>, wz, wq] \<and>
   list_all same_length (final_state (main zero_fields [wp, wz, wq] 2 1 ''RK4'')) \<and>
   list_all (\<lambda>p. length (part_rs p) = 1 \<and> length (part_vs p) = 1) [wp, wq] \<and>
   for_range zero_fields ''euler'' 1 2 [wp, wq] =
     Returned
       [wp\<lparr>part_vs := [(10, 1, 0), (10, 1, 0), (10, 1, 0)],
           part_rs := [(0, 0, 0), (10, 1, 0), (20, 2, 0)]\<rparr>,
        wq\<lparr>part_vs := [(4, 0, 2), (4, 0, 2), (4, 0, 2)],
           part_rs := [(- 1, 0, 0), (3, 0, 2), (7, 0, 4)]\<rparr>] \<and>
   list_all (\<lambda>p. length (part_rs p) = 2 + 1 \<and> length (part_vs p) = 2 + 1)
       [wp\<lparr>part_vs := [(10, 1, 0), (10, 1, 0), (10, 1, 0)],
           part_rs := [(0, 0, 0), (10, 1, 0), (20, 2, 0)]\<rparr>,
        wq\<lparr>part_vs := [(4, 0, 2), (4, 0, 2), (4, 0, 2)],
           part_rs := [(- 1, 0, 0), (3, 0, 2), (7, 0, 4)]\<rparr>]"
  using
    history_lengths[where F = zero_fields and p = wp and dt = 1 and ps = "[wp, wz, wq]"
      and t = 2 and integrator = "''RK4''" and n = 0 and ps' = "[]"
      and p' = "wp\<lparr>part_vs := [(10, 1, 0), (10, 1, 0)], part_rs := [(0, 0, 0), (10, 1, 0)]\<rparr>"]
    history_lengths[where F = zero_fields and p = wp and dt = 1 and ps = "[wp, wq]"
      and t = 2 and integrator = "''euler''" and n = 2
      and ps' = "[wp\<lparr>part_vs := [(10, 1, 0), (10, 1, 0), (10, 1, 0)],
                     part_rs := [(0, 0, 0), (10, 1, 0), (20, 2, 0)]\<rparr>,
                  wq\<lparr>part_vs := [(4, 0, 2), (4, 0, 2), (4, 0, 2)],
                     part_rs := [(- 1, 0, 0), (3, 0, 2), (7, 0, 4)]\<rparr>]"
      and p' = "wp\<lparr>part_vs := [(10, 1, 0), (10, 1, 0)], part_rs := [(0, 0, 0), (10, 1, 0)]\<rparr>"]
  by (simp add: wp_def wq_def wz_def Particle_init_def zero_fields_def same_length_def
      main_def py_div_def py_int_def numeral_2_eq_2
      update_particle_def updateEuler_def updateRK4_def py_last_def Let_def a_accel_def)

section \<open>Straight-line motion in vanishing fields\<close>



section \<open>The step count of a run\<close>




section \<open>A particle of mass zero\<close>




section \<open>What a step leaves unchanged\<close>

text \<open>
  Claim C8.  A single integration step, Euler or Runge-Kutta, leaves the charge, the mass
  and every recorded history row unchanged: the new position history is the old one
  with one row appended, likewise the velocity history, so the rows at indices below the
  old lengths are the old rows.  (A step that raises returns no new state: all
  statements that can raise precede the first assignment to an attribute.)
\<close>

theorem step_frame:
  "(updateEuler F p dt = Inr p' \<longrightarrow>
      part_q p' = part_q p \<and> part_m p' = part_m p \<and>
      part_rs p' = part_rs p @ [last (part_rs p')] \<and>
      part_vs p' = part_vs p @ [last (part_vs p')] \<and>
      (\<forall>i<length (part_rs p). part_rs p' ! i = part_rs p ! i) \<and>
      (\<forall>i<length (part_vs p). part_vs p' ! i = part_vs p ! i)) \<and>
   (updateRK4 F p dt = Inr p' \<longrightarrow>
      part_q p' = part_q p \<and> part_m p' = part_m p \<and>
      part_rs p' = part_rs p @ [last (part_rs p')] \<and>
      part_vs p' = part_vs p @ [last (part_vs p')] \<and>
      (\<forall>i<length (part_rs p). part_rs p' ! i = part_rs p ! i) \<and>
      (\<forall>i<length (part_vs p). part_vs p' ! i = part_vs p ! i))"
proof -
  have frame: "part_q p' = part_q p \<and> part_m p' = part_m p \<and>
      part_rs p' = part_rs p @ [last (part_rs p')] \<and>
      part_vs p' = part_vs p @ [last (part_vs p')] \<and>
      (\<forall>i<length (part_rs p). part_rs p' ! i = part_rs p ! i) \<and>
      (\<forall>i<length (part_vs p). part_vs p' ! i = part_vs p ! i)"
    if e: "p' = p\<lparr>part_vs := part_vs p @ [last (part_vs p')],
                   part_rs := part_rs p @ [last (part_rs p')]\<rparr>"
  proof -
    have q: "part_q p' = part_q p" by (subst e) simp
    have m: "part_m p' = part_m p" by (subst e) simp
    have rs: "part_rs p' = part_rs p @ [last (part_rs p')]" by (subst e) simp
    have vs: "part_vs p' = part_vs p @ [last (part_vs p')]" by (subst e) simp
    have "\<forall>i<length (part_rs p). part_rs p' ! i = part_rs p ! i"
      by (subst rs) (simp add: nth_append)
    moreover have "\<forall>i<length (part_vs p). part_vs p' ! i = part_vs p ! i"
      by (subst vs) (simp add: nth_append)
    ultimately show ?thesis using q m rs vs by blast
  qed
  show ?thesis
    using frame[OF updateEuler_Inr] frame[OF updateRK4_Inr] by blast
qed

text \<open>
  The instance: an Euler and a Runge-Kutta step on \<open>wh\<close>, whose histories have two rows,
  in the fields of the source file.
\<close>

theorem step_frame_witness:
  "updateEuler src_fields wh 1 =
     Inr (wh\<lparr>part_vs := [(7, 7, 7), (10, 1, 0), (10, 1, - 2 / 10 ^ 9)],
             part_rs := [(5, 5, 5), (0, 0, 0), (10, 1, - 1 / 10 ^ 9)]\<rparr>) \<and>
   updateRK4 src_fields wh 1 =
     Inr (wh\<lparr>part_vs := [(7, 7, 7), (10, 1, 0), (10 - 1 / 10 ^ 19, 1, - 2 / 10 ^ 9)],
             part_rs := [(5, 5, 5), (0, 0, 0), (10 - 1 / (3 * 10 ^ 19), 1, - 1 / 10 ^ 9)]\<rparr>) \<and>
   part_q wh = - 2 \<and> part_m wh = 1 \<and>
   part_rs wh = [(5, 5, 5), (0, 0, 0)] \<and> part_vs wh = [(7, 7, 7), (10, 1, 0)] \<and>
   (0 :: nat) < length (part_rs wh) \<and> (1 :: nat) < length (part_rs wh) \<and>
   [(5, 5, 5), (0, 0, 0), (10, 1, - 1 / 10 ^ 9) :: vec3] ! 0 = part_rs wh ! 0 \<and>
   [(5, 5, 5), (0, 0, 0), (10, 1, - 1 / 10 ^ 9) :: vec3] ! 1 = part_rs wh ! 1 \<and>
   [(7, 7, 7), (10, 1, 0), (10 - 1 / 10 ^ 19, 1, - 2 / 10 ^ 9) :: vec3] ! 0 = part_vs wh ! 0 \<and>
   [(7, 7, 7), (10, 1, 0), (10 - 1 / 10 ^ 19, 1, - 2 / 10 ^ 9) :: vec3] ! 1 = part_vs wh ! 1"
  using
    step_frame[where F = src_fields and p = wh and dt = 1
      and p' = "wh\<lparr>part_vs := [(7, 7, 7), (10, 1, 0), (10, 1, - 2 / 10 ^ 9)],
                    part_rs := [(5, 5, 5), (0, 0, 0), (10, 1, - 1 / 10 ^ 9)]\<rparr>"]
    step_frame[where F = src_fields and p = wh and dt = 1
      and p' = "wh\<lparr>part_vs := [(7, 7, 7), (10, 1, 0), (10 - 1 / 10 ^ 19, 1, - 2 / 10 ^ 9)],
                    part_rs := [(5, 5, 5), (0, 0, 0),
                      (10 - 1 / (3 * 10 ^ 19), 1, - 1 / 10 ^ 9)]\<rparr>"]
  by (simp add: wh_def Particle_init_def Let_def a_accel_def src_fields_def
      E_src_def B_src_def g_src_def updateEuler_def updateRK4_def py_last_def py_div_def)

section \<open>Determinism of a run\<close>



section \<open>A step reads only the last rows\<close>

text \<open>
  Claim C10.  The position and velocity that a single Euler or Runge-Kutta step appends
  depend only on the charge, the mass, \<open>dt\<close> and the last row of each history.  Two
  particles \<open>p_a\<close> and \<open>p_b\<close> with equal charge and mass and equal last rows \<open>r\<close> and
  \<open>v\<close>, whatever their earlier rows \<open>rs_a\<close>, \<open>vs_a\<close> and \<open>rs_b\<close>, \<open>vs_b\<close> are,
  either both get the same new position \<open>rf\<close> and the same new velocity \<open>vf\<close> appended,
  or both raise ZeroDivisionError (when the common mass is zero).
\<close>

theorem step_depends_on_last_rows:
  assumes "part_q p_a = part_q p_b" "part_m p_a = part_m p_b"
    and "part_rs p_a = rs_a @ [r]" "part_rs p_b = rs_b @ [r]"
    and "part_vs p_a = vs_a @ [v]" "part_vs p_b = vs_b @ [v]"
  shows "((\<exists>rf vf.
            updateEuler F p_a dt =
              Inr (p_a\<lparr>part_vs := part_vs p_a @ [vf], part_rs := part_rs p_a @ [rf]\<rparr>) \<and>
            updateEuler F p_b dt =
              Inr (p_b\<lparr>part_vs := part_vs p_b @ [vf], part_rs := part_rs p_b @ [rf]\<rparr>))
          \<or> (updateEuler F p_a dt = Inl ZeroDivisionError \<and>
              updateEuler F p_b dt = Inl ZeroDivisionError)) \<and>
         ((\<exists>rf vf.
            updateRK4 F p_a dt =
              Inr (p_a\<lparr>part_vs := part_vs p_a @ [vf], part_rs := part_rs p_a @ [rf]\<rparr>) \<and>
            updateRK4 F p_b dt =
              Inr (p_b\<lparr>part_vs := part_vs p_b @ [vf], part_rs := part_rs p_b @ [rf]\<rparr>))
          \<or> (updateRK4 F p_a dt = Inl ZeroDivisionError \<and>
              updateRK4 F p_b dt = Inl ZeroDivisionError))"
proof (cases "part_m p_b = 0")
  case True
  with assms show ?thesis
    by (simp add: updateEuler_def updateRK4_def py_last_def py_div_def)
next
  case False
  let ?e = "projr (updateEuler F p_b dt)"
  let ?k = "projr (updateRK4 F p_b dt)"
  from False assms have
    "updateEuler F p_a dt =
       Inr (p_a\<lparr>part_vs := part_vs p_a @ [last (part_vs ?e)],
                part_rs := part_rs p_a @ [last (part_rs ?e)]\<rparr>) \<and>
     updateEuler F p_b dt =
       Inr (p_b\<lparr>part_vs := part_vs p_b @ [last (part_vs ?e)],
                part_rs := part_rs p_b @ [last (part_rs ?e)]\<rparr>)"
    by (simp add: updateEuler_def py_last_def py_div_def Let_def)
  then have euler: "\<exists>rf vf.
      updateEuler F p_a dt =
        Inr (p_a\<lparr>part_vs := part_vs p_a @ [vf], part_rs := part_rs p_a @ [rf]\<rparr>) \<and>
      updateEuler F p_b dt =
        Inr (p_b\<lparr>part_vs := part_vs p_b @ [vf], part_rs := part_rs p_b @ [rf]\<rparr>)"
    by blast
  from False assms have
    "updateRK4 F p_a dt =
       Inr (p_a\<lparr>part_vs := part_vs p_a @ [last (part_vs ?k)],
                part_rs := part_rs p_a @ [last (part_rs ?k)]\<rparr>) \<and>
     updateRK4 F p_b dt =
       Inr (p_b\<lparr>part_vs := part_vs p_b @ [last (part_vs ?k)],
                part_rs := part_rs p_b @ [last (part_rs ?k)]\<rparr>)"
    by (simp add: updateRK4_def py_last_def py_div_def Let_def)
  then have rk4: "\<exists>rf vf.
      updateRK4 F p_a dt =
        Inr (p_a\<lparr>part_vs := part_vs p_a @ [vf], part_rs := part_rs p_a @ [rf]\<rparr>) \<and>
      updateRK4 F p_b dt =
        Inr (p_b\<lparr>part_vs := part_vs p_b @ [vf], part_rs := part_rs p_b @ [rf]\<rparr>)"
    by blast
  from euler rk4 show ?thesis by blast
qed

text \<open>
  The instance: \<open>wp\<close>, with one row in each history, and \<open>wh\<close>, with an earlier row
  \<open>(5, 5, 5)\<close> and \<open>(7, 7, 7)\<close>, in the fields of the source file.
\<close>

theorem step_depends_on_last_rows_witness:
  "part_q wp = part_q wh \<and> part_m wp = part_m wh \<and>
   part_rs wp = [] @ [(0, 0, 0)] \<and> part_rs wh = [(5, 5, 5)] @ [(0, 0, 0)] \<and>
   part_vs wp = [] @ [(10, 1, 0)] \<and> part_vs wh = [(7, 7, 7)] @ [(10, 1, 0)] \<and>
   updateEuler src_fields wp 1 =
     Inr (wp\<lparr>part_vs := part_vs wp @ [(10, 1, - 2 / 10 ^ 9)],
             part_rs := part_rs wp @ [(10, 1, - 1 / 10 ^ 9)]\<rparr>) \<and>
   updateEuler src_fields wh 1 =
     Inr (wh\<lparr>part_vs := part_vs wh @ [(10, 1, - 2 / 10 ^ 9)],
             part_rs := part_rs wh @ [(10, 1, - 1 / 10 ^ 9)]\<rparr>) \<and>
   updateRK4 src_fields wp 1 =
     Inr (wp\<lparr>part_vs := part_vs wp @ [(10 - 1 / 10 ^ 19, 1, - 2 / 10 ^ 9)],
             part_rs := part_rs wp @ [(10 - 1 / (3 * 10 ^ 19), 1, - 1 / 10 ^ 9)]\<rparr>) \<and>
   updateRK4 src_fields wh 1 =
     Inr (wh\<lparr>part_vs := part_vs wh @ [(10 - 1 / 10 ^ 19, 1, - 2 / 10 ^ 9)],
             part_rs := part_rs wh @ [(10 - 1 / (3 * 10 ^ 19), 1, - 1 / 10 ^ 9)]\<rparr>)"
  using step_depends_on_last_rows[where p_a = wp and p_b = wh and rs_a = "[]"
      and rs_b = "[(5, 5, 5)]" and r = "(0, 0, 0)" and vs_a = "[]" and vs_b = "[(7, 7, 7)]"
      and v = "(10, 1, 0)" and F = src_fields and dt = 1]
  by (simp add: wp_def wh_def Particle_init_def Let_def a_accel_def src_fields_def
      E_src_def B_src_def g_src_def updateEuler_def updateRK4_def py_last_def py_div_def)

end
